theory Spec2Isabelle
  imports Main "HOL-Library.AList"
begin

section \<open>JavaScript values used by the dispatch engine\<close>

text \<open>
  Strings are lists of characters. The characters the code itself names are ASCII ones
  (the delimiters of the placeholder pattern, the prefix \<open>temp_\<close>, the digits of an
  hour); \<open>String.prototype.trim\<close> and \<open>toLowerCase\<close>, which follow the Unicode tables
  of the runtime, are parameters of the renderer.
  A plain object and a \<open>Map\<close> are association lists in insertion order: writing an
  existing key replaces its value in place, writing a new key appends it
  (\<open>AList.update\<close>); \<open>Map.delete\<close> is \<open>AList.delete\<close>; a lookup is \<open>map_of\<close>.
  Property names are ordinary data names (the special name \<open>__proto__\<close> and the numeric
  reordering of integer-like keys are outside the model).
  An error is the message of the thrown \<open>Error\<close>; a function that may throw returns
  \<open>error + 'a\<close>, with \<open>Inl\<close> for the throw. Logging is not modelled.
\<close>

type_synonym error = string

text \<open>
  A persisted JSON document: the file does not exist, cannot be read or parsed, or holds
  a document.
\<close>

datatype 'a json_file = Missing | Unreadable | Stored 'a

fun startsWith :: "string \<Rightarrow> string \<Rightarrow> bool" where
  "startsWith s [] = True"
| "startsWith [] (p # ps) = False"
| "startsWith (c # cs) (p # ps) = (c = p \<and> startsWith cs ps)"

text \<open>Object spread \<open>{...a, ...b}\<close>: the properties of \<open>b\<close> written onto a copy of \<open>a\<close>.\<close>

definition spread :: "('k \<times> 'v) list \<Rightarrow> ('k \<times> 'v) list \<Rightarrow> ('k \<times> 'v) list" where
  "spread a b = foldl (\<lambda>acc (k, v). AList.update k v acc) a b"


section \<open>Message renderer (templateEngine.js)\<close>

text \<open>
  What the renderer takes from outside: the runtime's \<open>trim\<close> and \<open>toLowerCase\<close>, and
  \<open>SpintaxParser.parse\<close> (spintax.js), which resolves the variant groups of the
  substituted text by random choice.
\<close>

record render_env =
  trim :: "string \<Rightarrow> string"
  toLowerCase :: "string \<Rightarrow> string"
  spintax :: "string \<Rightarrow> string"

text \<open>
  \<open>normalizeVariables\<close>: a reduce over \<open>Object.entries(variables)\<close>. An entry with an
  empty key is skipped; a \<open>null\<close>/\<open>undefined\<close> value (\<open>None\<close>) becomes the empty string;
  any other value is given by its \<open>String(value)\<close> image.
\<close>

definition normalizeKey :: "render_env \<Rightarrow> string \<Rightarrow> string" where
  "normalizeKey r key = toLowerCase r (trim r key)"

definition normalizeVariables ::
  "render_env \<Rightarrow> (string \<times> string option) list \<Rightarrow> (string \<times> string) list" where
  "normalizeVariables r variables =
     foldl (\<lambda>acc (key, val).
              if key = [] then acc
              else AList.update (normalizeKey r key) (case val of None \<Rightarrow> [] | Some s \<Rightarrow> s) acc)
           [] variables"

text \<open>
  The regular expression \<open>/\{([^{}|/]+)\}|\[([^\[\]]+)\]/g\<close>. After an opening
  character, the greedy negated class takes the longest run of admissible characters;
  the run must be non-empty and the next character must be the closer. Backtracking
  cannot help, since every character of the run differs from the closer.
  \<open>match_group\<close> returns the captured key and the text after the match.
\<close>

definition brace_key_char :: "char \<Rightarrow> bool" where
  "brace_key_char c = (c \<notin> set ''{}|/'')"

definition bracket_key_char :: "char \<Rightarrow> bool" where
  "bracket_key_char c = (c \<notin> set ''[]'')"

definition match_group :: "(char \<Rightarrow> bool) \<Rightarrow> char \<Rightarrow> string \<Rightarrow> (string \<times> string) option" where
  "match_group ok closer s =
     (case dropWhile ok s of
        [] \<Rightarrow> None
      | c # rest \<Rightarrow> if takeWhile ok s \<noteq> [] \<and> c = closer then Some (takeWhile ok s, rest) else None)"

lemma match_group_length:
  "match_group ok closer s = Some (key, rest) \<Longrightarrow> length rest < length s"
proof -
  assume m: "match_group ok closer s = Some (key, rest)"
  then obtain c where "dropWhile ok s = c # rest"
    by (auto simp: match_group_def split: list.splits if_splits)
  moreover have "length (dropWhile ok s) \<le> length s"
    by (rule length_dropWhile_le)
  ultimately show ?thesis by simp
qed

text \<open>
  \<open>template.replace(regex, callback)\<close> with the global flag: the text is scanned from
  the left; at a match the callback's result is emitted and the scan goes on after
  the match (the replacement is not rescanned); any other character is copied.
  The callback receives the whole match and the captured key.
\<close>

function replace_placeholders :: "(string \<Rightarrow> string \<Rightarrow> string) \<Rightarrow> string \<Rightarrow> string" where
  "replace_placeholders f [] = []"
| "replace_placeholders f (c # s) =
     (if c = CHR ''{'' then
        (case match_group brace_key_char (CHR ''}'') s of
           Some (key, rest) \<Rightarrow> f (c # key @ ''}'') key @ replace_placeholders f rest
         | None \<Rightarrow> c # replace_placeholders f s)
      else if c = CHR ''['' then
        (case match_group bracket_key_char (CHR '']'') s of
           Some (key, rest) \<Rightarrow> f (c # key @ '']'') key @ replace_placeholders f rest
         | None \<Rightarrow> c # replace_placeholders f s)
      else c # replace_placeholders f s)"
  by pat_completeness auto
termination
  by (relation "measure (\<lambda>(f, s). length s)") (auto dest: match_group_length)

definition lookup_variable ::
  "render_env \<Rightarrow> (string \<times> string) list \<Rightarrow> string \<Rightarrow> string \<Rightarrow> string" where
  "lookup_variable r normalized match rawKey =
     (case map_of normalized (normalizeKey r rawKey) of Some v \<Rightarrow> v | None \<Rightarrow> match)"

definition withVariables :: "render_env \<Rightarrow> string \<Rightarrow> (string \<times> string option) list \<Rightarrow> string" where
  "withVariables r template variables =
     replace_placeholders (lookup_variable r (normalizeVariables r variables)) template"

definition applyTemplate :: "render_env \<Rightarrow> string \<Rightarrow> (string \<times> string option) list \<Rightarrow> string" where
  "applyTemplate r template variables =
     (if template = [] then [] else spintax r (withVariables r template variables))"


section \<open>Client-side session reconciliation (mergeSessions)\<close>

text \<open>
  A session object is its \<open>id\<close> and its other properties. \<open>merge_fields\<close> is the spread
  \<open>{ ...session, ...updated }\<close>: the incoming values take precedence.
\<close>

record 'v session =
  sid :: string
  props :: "(string \<times> 'v) list"

definition merge_fields :: "'v session \<Rightarrow> 'v session \<Rightarrow> 'v session" where
  "merge_fields session updated =
     \<lparr>sid = sid updated, props = spread (props session) (props updated)\<rparr>"

text \<open>\<open>new Map(incoming.map((session) => [session.id, session]))\<close>\<close>

definition incomingMap_of :: "'v session list \<Rightarrow> (string \<times> 'v session) list" where
  "incomingMap_of incoming = foldl (\<lambda>m s. AList.update (sid s) s m) [] incoming"

text \<open>The \<open>previous.forEach\<close> loop, on the pair of \<open>merged\<close> and \<open>incomingMap\<close>.\<close>

fun forEach_previous ::
  "'v session list \<Rightarrow> 'v session list \<Rightarrow> (string \<times> 'v session) list
     \<Rightarrow> 'v session list \<times> (string \<times> 'v session) list" where
  "forEach_previous [] merged incomingMap = (merged, incomingMap)"
| "forEach_previous (session # rest) merged incomingMap =
     (case map_of incomingMap (sid session) of
        Some updated \<Rightarrow>
          forEach_previous rest (merged @ [merge_fields session updated])
            (AList.delete (sid session) incomingMap)
      | None \<Rightarrow>
          if startsWith (sid session) ''temp_''
          then forEach_previous rest (merged @ [session]) incomingMap
          else forEach_previous rest merged incomingMap)"

definition mergeSessions :: "'v session list \<Rightarrow> 'v session list \<Rightarrow> 'v session list" where
  "mergeSessions previous incoming =
     (case forEach_previous previous [] (incomingMap_of incoming) of
        (merged, incomingMap) \<Rightarrow> merged @ map snd incomingMap)"

text \<open>
  The reconciliation rule in the words of the specification: a previous session whose
  id appears in the incoming list is merged with it, a previous session absent from the
  incoming list is kept exactly when its id starts with \<open>temp_\<close>, and the incoming
  sessions with no previous counterpart are appended.
\<close>

definition reconcile :: "'v session \<Rightarrow> 'v session list \<Rightarrow> 'v session list" where
  "reconcile p incoming =
     (case find (\<lambda>i. sid i = sid p) incoming of
        Some u \<Rightarrow> [merge_fields p u]
      | None \<Rightarrow> if startsWith (sid p) ''temp_'' then [p] else [])"

definition merge_spec :: "'v session list \<Rightarrow> 'v session list \<Rightarrow> 'v session list" where
  "merge_spec previous incoming =
     concat (map (\<lambda>p. reconcile p incoming) previous)
     @ filter (\<lambda>i. sid i \<notin> set (map sid previous)) incoming"


section \<open>Dispatcher (dispatcher.js)\<close>

datatype status = SENDING | SENT | DELIVERED | SERVER_ACK | FAILED | READ | PLAYED

record delay_config =
  minDelay :: "nat option"
  maxDelay :: "nat option"

record correlation =
  c_campaignId :: "string option"
  c_contactId :: "string option"
  c_clientMessageId :: "string option"
  c_correlationId :: "string option"

record send_result =
  sr_messageId :: "string option"
  sr_jid :: "string option"

text \<open>
  The account handle returned by the load balancer (whatsappClient.js is an external
  collaborator). Its capabilities are given by their outcomes: \<open>waitUntilReady\<close> and
  \<open>enterCooldown\<close> are optional, \<open>sendMessage\<close> and \<open>waitForDelivery\<close> may reject.

  Modelled from the spec: \<open>enterCooldown(durationMs, reason)\<close> marks the account busy
  for the duration and has no failure condition in the error taxonomy, so only its
  presence is a field.
\<close>

record client =
  client_id :: string
  waitUntilReady :: "(nat \<Rightarrow> error + unit) option"
  sendMessage :: "string \<Rightarrow> string \<Rightarrow> correlation \<Rightarrow> error + send_result option"
  waitForDelivery :: "string \<Rightarrow> nat \<Rightarrow> error + unit"
  enterCooldown :: bool

text \<open>What one dispatch does to the selected session, in order.\<close>

datatype action =
    WaitUntilReady nat
  | Sleep nat
  | SendMessage string string
  | WaitForDelivery string nat
  | EnterCooldown nat string

record delays =
  typing :: nat
  wait :: nat

record dispatch_result =
  status :: status
  chip :: string
  message :: string
  clientMessageId :: "string option"
  messageId :: "string option"
  jid :: "string option"
  delays :: delays

record payload =
  p_phone :: string
  p_messageTemplate :: string
  p_variables :: "(string \<times> string option) list"
  p_correlation :: correlation
  p_delayConfig :: delay_config
  p_dryRun :: bool

text \<open>
  The collaborators of one \<open>dispatch\<close> call that are not part of the dispatcher:
  the load balancer's choice, what the renderer takes from outside, and the pacing
  policy (\<open>getVariableDelay\<close> is the draw made after \<open>setDelayRange(delayConfig)\<close>).
\<close>

record dispatch_env =
  getNextClient :: "client option"
  renderer :: render_env
  getTypingDelay :: "string \<Rightarrow> nat"
  getVariableDelay :: "delay_config \<Rightarrow> nat"

text \<open>JavaScript truthiness of an optional string: \<open>undefined\<close> and \<open>''\<close> are falsy.\<close>

fun truthy :: "string option \<Rightarrow> bool" where
  "truthy None = False"
| "truthy (Some s) = (s \<noteq> [])"

definition make_result ::
  "status \<Rightarrow> client \<Rightarrow> string \<Rightarrow> payload \<Rightarrow> string option \<Rightarrow> send_result option \<Rightarrow> nat \<Rightarrow> nat
     \<Rightarrow> dispatch_result" where
  "make_result st cl finalMessage p msgId sendResult typingTime postSendDelay =
     \<lparr>status = st, chip = client_id cl, message = finalMessage,
      clientMessageId = c_clientMessageId (p_correlation p),
      messageId = msgId,
      jid = (case sendResult of None \<Rightarrow> None | Some r \<Rightarrow> sr_jid r),
      delays = \<lparr>typing = typingTime, wait = postSendDelay\<rparr>\<rparr>"

text \<open>The tail of the real-send branch: the cooldown and the \<open>DELIVERED\<close> result.\<close>

definition flow_complete ::
  "action list \<Rightarrow> client \<Rightarrow> string \<Rightarrow> payload \<Rightarrow> send_result option \<Rightarrow> nat \<Rightarrow> nat
     \<Rightarrow> action list \<times> (error + dispatch_result)" where
  "flow_complete done cl finalMessage p sendResult typingTime postSendDelay =
     (done @ (if enterCooldown cl then [EnterCooldown postSendDelay ''post_send_delay''] else []),
      Inr (make_result DELIVERED cl finalMessage p
             (case sendResult of None \<Rightarrow> None | Some r \<Rightarrow> sr_messageId r)
             sendResult typingTime postSendDelay))"

definition dispatch :: "dispatch_env \<Rightarrow> payload \<Rightarrow> action list \<times> (error + dispatch_result)" where
  "dispatch env p =
     (let finalMessage = applyTemplate (renderer env) (p_messageTemplate p) (p_variables p) in
      case getNextClient env of
        None \<Rightarrow> ([], Inl ''No active sessions available for dispatch.'')
      | Some cl \<Rightarrow>
         (case (case waitUntilReady cl of None \<Rightarrow> Inr [] | Some w \<Rightarrow>
                  (case w 30000 of Inl e \<Rightarrow> Inl e | Inr _ \<Rightarrow> Inr [WaitUntilReady 30000])) of
            Inl e \<Rightarrow> ([WaitUntilReady 30000], Inl e)
          | Inr ready \<Rightarrow>
             (let typingTime = getTypingDelay env finalMessage;
                  postSendDelay = getVariableDelay env (p_delayConfig p)
              in if \<not> p_dryRun p then
                   (let sent = ready @ [Sleep typingTime, SendMessage (p_phone p) finalMessage] in
                    case sendMessage cl (p_phone p) finalMessage (p_correlation p) of
                      Inl e \<Rightarrow> (sent, Inl e)
                    | Inr sendResult \<Rightarrow>
                       (let msgId = (case sendResult of None \<Rightarrow> None | Some r \<Rightarrow> sr_messageId r) in
                        case (if truthy msgId then msgId else None) of
                          Some mid \<Rightarrow>
                            (case waitForDelivery cl mid 20000 of
                               Inl e \<Rightarrow>
                                 (sent @ [WaitForDelivery mid 20000],
                                  Inr (make_result SENT cl finalMessage p msgId sendResult
                                         typingTime postSendDelay))
                             | Inr _ \<Rightarrow>
                                 flow_complete (sent @ [WaitForDelivery mid 20000])
                                   cl finalMessage p sendResult typingTime postSendDelay)
                        | None \<Rightarrow>
                            flow_complete sent cl finalMessage p sendResult
                              typingTime postSendDelay))
                 else (ready, Inr (make_result DELIVERED cl finalMessage p None None
                                     typingTime postSendDelay)))))"


section \<open>Daily statistics (CampaignManager._updateDailyStats)\<close>

text \<open>
  The stored document is a JSON object whose fields may be missing (\<open>{}\<close> when the file
  does not exist yet), so every field is optional. The clock is a parameter: \<open>today\<close> is
  the \<open>YYYY-MM-DD\<close> prefix of the ISO timestamp, \<open>hour\<close> is \<open>getHours()\<close>.
\<close>

record daily_stats =
  date :: "string option"
  totalSent :: "nat option"
  totalDelivered :: "nat option"
  hourly :: "(string \<times> nat) list option"

definition digit_char :: "nat \<Rightarrow> char" where
  "digit_char d = ''0123456789'' ! (d mod 10)"

function toString :: "nat \<Rightarrow> string" where
  "toString n = (if n < 10 then [digit_char n] else toString (n div 10) @ [digit_char (n mod 10)])"
  by pat_completeness auto
termination
  by (relation "measure id") auto

definition padStart :: "nat \<Rightarrow> char \<Rightarrow> string \<Rightarrow> string" where
  "padStart n c s = replicate (n - length s) c @ s"

definition hourKey :: "nat \<Rightarrow> string" where
  "hourKey hour = padStart 2 (CHR ''0'') (toString hour) @ '':00''"

definition or_zero :: "nat option \<Rightarrow> nat" where
  "or_zero v = (case v of None \<Rightarrow> 0 | Some n \<Rightarrow> n)"

text \<open>
  \<open>let stats = {}; if (fs.existsSync(...)) stats = JSON.parse(...)\<close>: the object the
  update starts from, when the read does not throw.
\<close>

definition read_stats :: "daily_stats json_file \<Rightarrow> daily_stats" where
  "read_stats file =
     (case file of
        Stored stored \<Rightarrow> stored
      | Missing \<Rightarrow> \<lparr>date = None, totalSent = None, totalDelivered = None, hourly = None\<rparr>
      | Unreadable \<Rightarrow> \<lparr>date = None, totalSent = None, totalDelivered = None, hourly = None\<rparr>)"

text \<open>The statements between the read and the write: the day reset and the counts.\<close>

definition count_send :: "string \<Rightarrow> nat \<Rightarrow> status \<Rightarrow> daily_stats \<Rightarrow> daily_stats" where
  "count_send today hour st stats0 =
     (let stats1 = (if date stats0 \<noteq> Some today
                    then \<lparr>date = Some today, totalSent = Some 0, totalDelivered = Some 0,
                          hourly = Some []\<rparr>
                    else stats0)
      in if st \<in> set [SENT, DELIVERED, SERVER_ACK] then
           (let buckets = (case hourly stats1 of None \<Rightarrow> [] | Some h \<Rightarrow> h) in
            stats1\<lparr>totalSent := Some (or_zero (totalSent stats1) + 1),
                   hourly := Some (AList.update (hourKey hour)
                                     (or_zero (map_of buckets (hourKey hour)) + 1) buckets)\<rparr>)
         else stats1)"

text \<open>
  \<open>_updateDailyStats\<close>: the file after the call and the returned value. The whole body
  is inside a \<open>try\<close>: when the stored text cannot be read or parsed, or when the write
  throws (\<open>writeError\<close> is the error of \<open>fs.writeFileSync\<close>, if any), the \<open>catch\<close> returns
  \<open>null\<close> and the file is left as it is.
\<close>

definition updateDailyStats ::
  "string \<Rightarrow> nat \<Rightarrow> status \<Rightarrow> error option \<Rightarrow> daily_stats json_file
     \<Rightarrow> daily_stats json_file \<times> daily_stats option" where
  "updateDailyStats today hour st writeError file =
     (case file of
        Unreadable \<Rightarrow> (Unreadable, None)
      | Missing \<Rightarrow>
          (let stats = count_send today hour st (read_stats file) in
           case writeError of Some e \<Rightarrow> (file, None) | None \<Rightarrow> (Stored stats, Some stats))
      | Stored stored \<Rightarrow>
          (let stats = count_send today hour st (read_stats file) in
           case writeError of Some e \<Rightarrow> (file, None) | None \<Rightarrow> (Stored stats, Some stats)))"


section \<open>Campaign orchestrator (campaignManager.js)\<close>

record contact =
  row :: nat
  name :: string
  phone :: string
  columns :: "(string \<times> string option) list"

record campaign_config =
  cfg_messageTemplate :: string
  cfg_excelPath :: string
  cfg_originalFilename :: string
  cfg_delayConfig :: delay_config

record message_status =
  ms_campaignId :: string
  ms_contactId :: string
  ms_phone :: string
  ms_status :: status
  ms_error :: "string option"
  ms_updatedAt :: string

record campaign_state =
  campaignId :: "string option"
  totalContacts :: "nat option"
  processedRows :: "nat list"
  failedRows :: "(nat \<times> error) list"
  pendingRows :: "nat list"
  messageStatus :: "(string \<times> message_status) list"
  config :: "campaign_config option"

text \<open>The events handed to \<open>_emitEvent\<close>, with their payload fields in source order.\<close>

datatype event =
    CampaignStarted string nat nat
  | MessageStatus string string string string status string "string option"
  | QueueUpdate nat "nat option"
  | CooldownWait string nat "nat option" "nat option"
  | CampaignFinished string nat nat
  | Log string

text \<open>
  The manager: the two persisted documents, the
  in-memory \<open>currentState\<close>, the pause flag and the events emitted so far.
  Inside \<open>startCampaign\<close> the local variable \<open>state\<close> is the same object as
  \<open>this.currentState\<close>; the model reads it with \<open>cur\<close> and mutates it with
  \<open>update_state\<close>. \<open>saveState\<close> is the write of the state when it succeeds: it
  overwrites the whole state document. A write that throws leaves the document as it
  was; the one inside the \<open>try\<close> of the loop body is caught (see \<open>process_contact\<close>).
\<close>

record manager =
  stateFile :: "campaign_state json_file"
  statsFile :: "daily_stats json_file"
  currentState :: "campaign_state option"
  isPaused :: bool
  emitted :: "event list"

definition default_state :: campaign_state where
  "default_state =
     \<lparr>campaignId = None, totalContacts = None, processedRows = [], failedRows = [],
      pendingRows = [], messageStatus = [], config = None\<rparr>"

definition loadState :: "manager \<Rightarrow> campaign_state" where
  "loadState m =
     (case stateFile m of
        Stored s \<Rightarrow> s
      | Missing \<Rightarrow> default_state
      | Unreadable \<Rightarrow> default_state)"

definition cur :: "manager \<Rightarrow> campaign_state" where
  "cur m = (case currentState m of Some s \<Rightarrow> s | None \<Rightarrow> default_state)"

definition update_state :: "(campaign_state \<Rightarrow> campaign_state) \<Rightarrow> manager \<Rightarrow> manager" where
  "update_state f m = m\<lparr>currentState := Some (f (cur m))\<rparr>"

definition saveState :: "manager \<Rightarrow> manager" where
  "saveState m = m\<lparr>stateFile := Stored (cur m)\<rparr>"

definition emitEvent :: "event \<Rightarrow> manager \<Rightarrow> manager" where
  "emitEvent e m = m\<lparr>emitted := emitted m @ [e]\<rparr>"

definition hasActiveCampaign :: "manager \<Rightarrow> bool" where
  "hasActiveCampaign m =
     (let state = (case currentState m of Some s \<Rightarrow> s | None \<Rightarrow> loadState m) in
      if \<not> truthy (campaignId state) then False
      else
        (let total = or_zero (totalContacts state);
             processed = length (processedRows state)
         in if total = 0 \<and> length (pendingRows state) > 0 then True
            else if total > 0 \<and> processed < total then True
            else False))"

text \<open>
  The collaborators of a campaign run: the spreadsheet parser, the session registry's
  \<open>waitForReady\<close> (by its outcome), the correlation-id helpers, the clock, the
  environment of each dispatch, the error thrown by the state write inside the \<open>try\<close>
  and by the write of the stats file (\<open>None\<close> when the write succeeds), and the
  external pause request, all indexed by the position of the contact in the run.
\<close>

record parse_result =
  contacts :: "contact list"
  errors :: "string list"

record world =
  parse :: "string \<Rightarrow> string \<Rightarrow> error + parse_result"
  waitForReady :: "nat \<Rightarrow> nat \<Rightarrow> error + unit"
  createCampaignId :: string
  createContactId :: "nat \<Rightarrow> string"
  createMessageId :: "nat \<Rightarrow> string"
  buildCorrelationId :: "string \<Rightarrow> string \<Rightarrow> string option \<Rightarrow> string"
  formatCorrelationTag :: "string \<Rightarrow> string"
  dispatchEnv :: "nat \<Rightarrow> dispatch_env"
  saveStateError :: "nat \<Rightarrow> error option"
  statsWriteError :: "nat \<Rightarrow> error option"
  pauseRequested :: "nat \<Rightarrow> bool"
  nowISO :: "nat \<Rightarrow> string"
  todayISO :: "nat \<Rightarrow> string"
  getHours :: "nat \<Rightarrow> nat"

text \<open>The payload the loop hands to \<open>dispatch\<close> for the contact at position \<open>i\<close>.\<close>

definition payload_for ::
  "world \<Rightarrow> string \<Rightarrow> string \<Rightarrow> delay_config \<Rightarrow> nat \<Rightarrow> contact \<Rightarrow> payload" where
  "payload_for w cid messageTemplate delayConfig i c =
     (let contactId = createContactId w (row c);
          clientMsgId = createMessageId w i
      in \<lparr>p_phone = phone c,
          p_messageTemplate = messageTemplate,
          p_variables = spread [(''nome'', Some (name c)), (''telefone'', Some (phone c))] (columns c),
          p_correlation =
            \<lparr>c_campaignId = Some cid, c_contactId = Some contactId,
             c_clientMessageId = Some clientMsgId,
             c_correlationId = Some (buildCorrelationId w cid contactId (Some clientMsgId))\<rparr>,
          p_delayConfig = delayConfig,
          p_dryRun = False\<rparr>)"

definition seconds :: "nat option \<Rightarrow> nat option" where
  "seconds ms = (case ms of None \<Rightarrow> None | Some d \<Rightarrow> if d = 0 then None else Some ((d + 500) div 1000))"

text \<open>
  The outcome of \<open>await this.dispatcher.dispatch({...})\<close> for the contact at position
  \<open>i\<close>: the result, or the error it throws.
\<close>

definition attempt ::
  "world \<Rightarrow> string \<Rightarrow> string \<Rightarrow> delay_config \<Rightarrow> nat \<Rightarrow> contact \<Rightarrow> error + dispatch_result" where
  "attempt w cid messageTemplate delayConfig i c =
     snd (dispatch (dispatchEnv w i) (payload_for w cid messageTemplate delayConfig i c))"

text \<open>
  The \<open>catch\<close> block of the loop body, entered with the error and the state reached in
  the \<open>try\<close>: the row and the error go to \<open>failedRows\<close>, a non-empty client message id
  gets a \<open>FAILED\<close> entry and event, and the row goes to \<open>processedRows\<close>.
\<close>

definition catch_block :: "world \<Rightarrow> string \<Rightarrow> nat \<Rightarrow> contact \<Rightarrow> error \<Rightarrow> manager \<Rightarrow> manager" where
  "catch_block w cid i c err m =
     (let contactId = createContactId w (row c);
          clientMsgId = createMessageId w i;
          correlationTag = formatCorrelationTag w
                             (buildCorrelationId w cid contactId (Some clientMsgId));
          m2 = update_state (\<lambda>s. s\<lparr>failedRows := failedRows s @ [(row c, err)]\<rparr>) m;
          m3 = (if clientMsgId \<noteq> [] then
                  emitEvent (MessageStatus cid contactId clientMsgId correlationTag
                               FAILED (phone c) (Some err))
                    (update_state (\<lambda>s. s\<lparr>messageStatus :=
                       AList.update clientMsgId
                         \<lparr>ms_campaignId = cid, ms_contactId = contactId,
                          ms_phone = phone c, ms_status = FAILED, ms_error = Some err,
                          ms_updatedAt = nowISO w i\<rparr> (messageStatus s)\<rparr>) m2)
                else m2)
      in update_state (\<lambda>s. s\<lparr>processedRows := processedRows s @ [row c]\<rparr>) m3)"

text \<open>
  One iteration of the loop body: the \<open>try\<close> block and its \<open>catch\<close>. Two statements of
  the \<open>try\<close> may throw: \<open>dispatch\<close>, and the \<open>saveState\<close> that follows a successful send
  (the row is then already in \<open>processedRows\<close> and the result in \<open>messageStatus\<close>).
  The id helpers (utils/correlation) and the event emitter lie outside this module
  and are taken not to throw.
\<close>

definition process_contact ::
  "world \<Rightarrow> string \<Rightarrow> string \<Rightarrow> delay_config \<Rightarrow> nat \<Rightarrow> nat \<Rightarrow> contact \<Rightarrow> manager \<Rightarrow> manager" where
  "process_contact w cid messageTemplate delayConfig n i c m =
     (let contactId = createContactId w (row c);
          clientMsgId = createMessageId w i;
          correlationId = buildCorrelationId w cid contactId (Some clientMsgId);
          m1 = emitEvent (MessageStatus cid contactId clientMsgId correlationId SENDING (phone c) None) m
      in case attempt w cid messageTemplate delayConfig i c of
           Inr result \<Rightarrow>
             (let m2 = update_state (\<lambda>s. s\<lparr>messageStatus :=
                          AList.update clientMsgId
                            \<lparr>ms_campaignId = cid, ms_contactId = contactId, ms_phone = phone c,
                             ms_status = status result, ms_error = None,
                             ms_updatedAt = nowISO w i\<rparr> (messageStatus s)\<rparr>) m1;
                  m3 = emitEvent (MessageStatus cid contactId clientMsgId correlationId
                                    (status result) (phone c) None) m2
              in if status result = DELIVERED \<or> status result = SENT then
                   (let pushed = update_state
                                   (\<lambda>s. s\<lparr>processedRows := processedRows s @ [row c]\<rparr>) m3
                    in case saveStateError w i of
                         Some err \<Rightarrow> catch_block w cid i c err pushed
                       | None \<Rightarrow>
                          (let m4 = saveState pushed;
                               m5 = m4\<lparr>statsFile :=
                                      fst (updateDailyStats (todayISO w i) (getHours w i)
                                             (status result) (statsWriteError w i) (statsFile m4))\<rparr>;
                               m6 = emitEvent (QueueUpdate (length (processedRows (cur m5)))
                                                 (totalContacts (cur m5))) m5;
                               isLastItem = (i = n - 1)
                           in if \<not> isLastItem \<and> wait (delays result) > 0
                              then emitEvent (CooldownWait cid (wait (delays result))
                                                (seconds (minDelay delayConfig))
                                                (seconds (maxDelay delayConfig))) m6
                              else m6))
                 else m3)
         | Inl err \<Rightarrow> catch_block w cid i c err m1)"

text \<open>
  The \<open>for (const contact of toProcess)\<close> loop: the pause check, the body, and the
  \<open>saveState\<close> after each contact. \<open>n\<close> is \<open>toProcess.length\<close>, \<open>i\<close> the position.
  A throw of the write after a contact, like a throw of the write that follows the
  parse, is not caught by \<open>startCampaign\<close>: it ends the run with a rejected promise.
  The model covers the runs in which these two writes succeed.
\<close>

fun process_loop ::
  "world \<Rightarrow> string \<Rightarrow> string \<Rightarrow> delay_config \<Rightarrow> nat \<Rightarrow> nat \<Rightarrow> contact list \<Rightarrow> manager \<Rightarrow> manager" where
  "process_loop w cid messageTemplate delayConfig n i [] m = m"
| "process_loop w cid messageTemplate delayConfig n i (c # rest) m =
     (if isPaused m \<or> pauseRequested w i then m\<lparr>isPaused := True\<rparr>
      else process_loop w cid messageTemplate delayConfig n (Suc i) rest
             (saveState (process_contact w cid messageTemplate delayConfig n i c m)))"

record start_result =
  started_campaignId :: string
  start_error :: "string option"

text \<open>\<open>options.campaignId || createCampaignId()\<close>\<close>

definition resolve_campaignId :: "world \<Rightarrow> string option \<Rightarrow> string" where
  "resolve_campaignId w optCampaignId =
     (case (if truthy optCampaignId then optCampaignId else None) of
        Some given \<Rightarrow> given
      | None \<Rightarrow> createCampaignId w)"

text \<open>
  The state a start works on: the loaded state, replaced by a fresh one when a different
  campaign id is on record, with the campaign id and the configuration written into it.
\<close>

definition adopt_campaign :: "string \<Rightarrow> campaign_config \<Rightarrow> campaign_state \<Rightarrow> campaign_state" where
  "adopt_campaign cid cfg loaded =
     (if truthy (campaignId loaded) \<and> campaignId loaded \<noteq> Some cid
      then \<lparr>campaignId = Some cid, totalContacts = Some 0, processedRows = [],
            failedRows = [], pendingRows = [], messageStatus = [], config = Some cfg\<rparr>
      else loaded)
     \<lparr>campaignId := Some cid, config := Some cfg\<rparr>"

text \<open>\<open>allContacts.filter(c => !state.processedRows.includes(c.row))\<close>\<close>

definition unprocessed :: "campaign_state \<Rightarrow> contact list \<Rightarrow> contact list" where
  "unprocessed state allContacts = filter (\<lambda>c. row c \<notin> set (processedRows state)) allContacts"

text \<open>
  The start sequence up to the \<open>campaign_started\<close> event: load, supersede, parse, store
  the total, persist, filter. \<open>Inl\<close> is the parser's error, which rejects the promise of
  \<open>startCampaign\<close>; otherwise the campaign id, the delay configuration and \<open>toProcess\<close>.
\<close>

definition prepare_campaign ::
  "world \<Rightarrow> string \<Rightarrow> string \<Rightarrow> string \<Rightarrow> string option \<Rightarrow> nat option \<Rightarrow> nat option \<Rightarrow> manager
     \<Rightarrow> manager \<times> (error + string \<times> delay_config \<times> contact list)" where
  "prepare_campaign w excelPath messageTemplate originalFilename optCampaignId delayMin delayMax m =
     (let cid = resolve_campaignId w optCampaignId;
          delayConfig = \<lparr>minDelay = delayMin, maxDelay = delayMax\<rparr>;
          cfg = \<lparr>cfg_messageTemplate = messageTemplate, cfg_excelPath = excelPath,
                 cfg_originalFilename = originalFilename, cfg_delayConfig = delayConfig\<rparr>;
          m1 = m\<lparr>currentState := Some (adopt_campaign cid cfg (loadState m))\<rparr>
      in case parse w excelPath originalFilename of
           Inl e \<Rightarrow> (m1, Inl e)
         | Inr parseResult \<Rightarrow>
            (let allContacts = contacts parseResult;
                 m2 = saveState (update_state
                        (\<lambda>s. s\<lparr>totalContacts := Some (length allContacts)\<rparr>) m1);
                 toProcess = unprocessed (cur m2) allContacts;
                 m3 = emitEvent (CampaignStarted cid (length allContacts) (length toProcess)) m2
             in (m3, Inr (cid, delayConfig, toProcess))))"

text \<open>
  \<open>startCampaign\<close>: the wait for a ready session when there is work, the loop, and the
  \<open>campaign_finished\<close> event. The resolved value carries \<open>error\<close> when the wait timed
  out (the log line is written here without its accent).
\<close>

definition startCampaign ::
  "world \<Rightarrow> string \<Rightarrow> string \<Rightarrow> string \<Rightarrow> string option \<Rightarrow> nat option \<Rightarrow> nat option \<Rightarrow> manager
     \<Rightarrow> manager \<times> (error + start_result)" where
  "startCampaign w excelPath messageTemplate originalFilename optCampaignId delayMin delayMax m =
     (case prepare_campaign w excelPath messageTemplate originalFilename optCampaignId
             delayMin delayMax m of
        (m1, Inl e) \<Rightarrow> (m1, Inl e)
      | (m3, Inr (cid, delayConfig, toProcess)) \<Rightarrow>
         (case (if toProcess \<noteq> [] then waitForReady w 1 120000 else Inr ()) of
            Inl e \<Rightarrow>
              (emitEvent (Log ''[ERROR] Cancelado: Nenhuma conexao ativa encontrada em 2 minutos.'') m3,
               Inr \<lparr>started_campaignId = cid, start_error = Some e\<rparr>)
          | Inr ready \<Rightarrow>
              (let m4 = process_loop w cid messageTemplate delayConfig (length toProcess) 0
                          toProcess (m3\<lparr>isPaused := False\<rparr>);
                   m5 = emitEvent (CampaignFinished cid (length (processedRows (cur m4)))
                                     (length (failedRows (cur m4)))) m4
               in (m5, Inr \<lparr>started_campaignId = cid, start_error = None\<rparr>))))"


section \<open>The start route (api.js, POST /api/campaign/start)\<close>

text \<open>
  The handler answers 500 with the error's message, or 200 with the new campaign id and
  starts the campaign in the background; the model runs the background job to its end.
  \<open>NoFileUploaded\<close> is the message \<open>No file uploaded\<close>, \<open>CampaignInProgress\<close> the message
  that a campaign is already running. The delay fields are the numbers read from the
  form, in seconds.
\<close>

datatype api_error = NoFileUploaded | CampaignInProgress

datatype response = Success string | Failure api_error

record start_request =
  req_file :: "(string \<times> string) option"
  req_message :: string
  req_delayMin :: "nat option"
  req_delayMax :: "nat option"

definition to_ms :: "nat option \<Rightarrow> nat option" where
  "to_ms d = (case d of None \<Rightarrow> None | Some secs \<Rightarrow> Some (secs * 1000))"

definition post_campaign_start :: "world \<Rightarrow> start_request \<Rightarrow> manager \<Rightarrow> response \<times> manager" where
  "post_campaign_start w req m =
     (case req_file req of
        None \<Rightarrow> (Failure NoFileUploaded, m)
      | Some (path, originalname) \<Rightarrow>
          if hasActiveCampaign m then (Failure CampaignInProgress, m)
          else
            (let cid = createCampaignId w in
             case startCampaign w path (req_message req) originalname (Some cid)
                    (to_ms (req_delayMin req)) (to_ms (req_delayMax req)) m of
               (m', Inl err) \<Rightarrow> (Success cid, emitEvent (Log (''[ERROR] Campaign Failed: '' @ err)) m')
             | (m', Inr r) \<Rightarrow> (Success cid, m')))"


section \<open>Notions used to state the properties\<close>




text \<open>The reconciliation of one previous session against the incoming \<open>Map\<close>.\<close>

definition reconcile_map :: "'v session \<Rightarrow> (string \<times> 'v session) list \<Rightarrow> 'v session list" where
  "reconcile_map p m =
     (case map_of m (sid p) of
        Some u \<Rightarrow> [merge_fields p u]
      | None \<Rightarrow> if startsWith (sid p) ''temp_'' then [p] else [])"

text \<open>
  The send call a dispatch makes on the selected session, and the condition that the
  session's readiness wait, when it has one, does not time out.
\<close>

definition send_outcome :: "dispatch_env \<Rightarrow> payload \<Rightarrow> client \<Rightarrow> error + send_result option" where
  "send_outcome env p cl =
     sendMessage cl (p_phone p)
       (applyTemplate (renderer env) (p_messageTemplate p) (p_variables p)) (p_correlation p)"

definition ready_ok :: "client \<Rightarrow> bool" where
  "ready_ok cl = (case waitUntilReady cl of None \<Rightarrow> True | Some w \<Rightarrow> (case w 30000 of Inl e \<Rightarrow> False | Inr u \<Rightarrow> True))"




text \<open>
  The \<open>(row, error)\<close> pairs of the contacts whose dispatch raises, in a run over the
  given contacts that starts at position \<open>i\<close>, in order.
\<close>

fun failures ::
  "world \<Rightarrow> string \<Rightarrow> string \<Rightarrow> delay_config \<Rightarrow> nat \<Rightarrow> contact list \<Rightarrow> (nat \<times> error) list" where
  "failures w cid messageTemplate delayConfig i [] = []"
| "failures w cid messageTemplate delayConfig i (c # rest) =
     (case attempt w cid messageTemplate delayConfig i c of
        Inl err \<Rightarrow> [(row c, err)]
      | Inr res \<Rightarrow> [])
     @ failures w cid messageTemplate delayConfig (Suc i) rest"

text \<open>
  The contact ids of the \<open>SENDING\<close> events in a list of events: one is emitted right
  before each call of \<open>dispatch\<close>.
\<close>

fun sending_of :: "event \<Rightarrow> string list" where
  "sending_of (MessageStatus cid contactId mid corr st ph err) = (if st = SENDING then [contactId] else [])"
| "sending_of e = []"

definition sendings :: "event list \<Rightarrow> string list" where
  "sendings es = concat (map sending_of es)"

section \<open>Example configurations\<close>

text \<open>
  The examples use ASCII text. On ASCII text \<open>trim\<close> removes leading and trailing
  space, tab, line feed, vertical tab, form feed and carriage return, and
  \<open>toLowerCase\<close> maps \<open>A\<close>..\<open>Z\<close> to \<open>a\<close>..\<open>z\<close>; the example resolver finds no variant
  group.
\<close>

definition ascii_space :: "char \<Rightarrow> bool" where
  "ascii_space c = (c \<in> set [CHR '' '', CHR 0x09, CHR 0x0A, CHR 0x0B, CHR 0x0C, CHR 0x0D])"

definition ascii_trim :: "string \<Rightarrow> string" where
  "ascii_trim s = rev (dropWhile ascii_space (rev (dropWhile ascii_space s)))"

definition ascii_lower :: "char \<Rightarrow> char" where
  "ascii_lower c =
     (case map_of (zip ''ABCDEFGHIJKLMNOPQRSTUVWXYZ'' ''abcdefghijklmnopqrstuvwxyz'') c of
        Some l \<Rightarrow> l
      | None \<Rightarrow> c)"

definition example_renderer :: render_env where
  "example_renderer =
     \<lparr>trim = ascii_trim, toLowerCase = map ascii_lower, spintax = (\<lambda>text. text)\<rparr>"

text \<open>
  A session whose send and delivery-confirmation outcomes are given, a pacing policy
  with fixed numbers, and a payload for one contact.
\<close>

definition example_client :: "(error + send_result option) \<Rightarrow> (error + unit) \<Rightarrow> client" where
  "example_client sent acked =
     \<lparr>client_id = ''chip_1'', waitUntilReady = Some (\<lambda>timeoutMs. Inr ()),
      sendMessage = (\<lambda>to text c. sent), waitForDelivery = (\<lambda>mid timeoutMs. acked),
      enterCooldown = True\<rparr>"


definition example_env :: "client option \<Rightarrow> dispatch_env" where
  "example_env cl =
     \<lparr>getNextClient = cl, renderer = example_renderer,
      getTypingDelay = (\<lambda>text. 50 * length text),
      getVariableDelay = (\<lambda>dc. case minDelay dc of None \<Rightarrow> 5000 | Some d \<Rightarrow> d)\<rparr>"

definition example_payload :: "bool \<Rightarrow> payload" where
  "example_payload dry =
     \<lparr>p_phone = ''5511999990000'', p_messageTemplate = ''Oi [nome]'',
      p_variables = [(''nome'', Some ''Sam'')],
      p_correlation = \<lparr>c_campaignId = Some ''camp_1'', c_contactId = Some ''contact_2'',
                        c_clientMessageId = Some ''msg_1'', c_correlationId = Some ''camp_1:contact_2:msg_1''\<rparr>,
      p_delayConfig = \<lparr>minDelay = None, maxDelay = None\<rparr>,
      p_dryRun = dry\<rparr>"

definition provider_ack :: "send_result" where
  "provider_ack = \<lparr>sr_messageId = Some ''wamid.1'', sr_jid = Some ''5511999990000@s.whatsapp.net''\<rparr>"


text \<open>A session object with one property besides its id.\<close>

definition example_session :: "string \<Rightarrow> string \<Rightarrow> string session" where
  "example_session i st = \<lparr>sid = i, props = [(''status'', st)]\<rparr>"


text \<open>
  A campaign of three contacts on one ready account: the first two sends are delivered,
  the send for the third contact raises a transport error. \<open>offline_world\<close> is the
  same campaign when no session becomes ready; \<open>busy_manager\<close> has an unfinished
  campaign \<open>camp_1\<close> on record.
\<close>

definition contact_ana :: contact where
  "contact_ana = \<lparr>row = 2, name = ''Ana'', phone = ''5511999990001'',
                   columns = [(''row'', Some ''2''), (''name'', Some ''Ana''), (''phone'', Some ''5511999990001'')]\<rparr>"

definition contact_bia :: contact where
  "contact_bia = \<lparr>row = 3, name = ''Bia'', phone = ''5511999990002'',
                   columns = [(''row'', Some ''3''), (''name'', Some ''Bia''), (''phone'', Some ''5511999990002'')]\<rparr>"

definition contact_caio :: contact where
  "contact_caio = \<lparr>row = 4, name = ''Caio'', phone = ''5511999990003'',
                    columns = [(''row'', Some ''4''), (''name'', Some ''Caio''), (''phone'', Some ''5511999990003'')]\<rparr>"

definition example_contacts :: "contact list" where
  "example_contacts = [contact_ana, contact_bia, contact_caio]"

definition no_delay :: delay_config where
  "no_delay = \<lparr>minDelay = None, maxDelay = None\<rparr>"

definition example_world :: world where
  "example_world =
     \<lparr>parse = (\<lambda>path original.
                 if path = ''missing.xlsx'' then Inl ''File not found''
                 else Inr \<lparr>contacts = example_contacts, errors = []\<rparr>),
      waitForReady = (\<lambda>minReady timeoutMs. Inr ()),
      createCampaignId = ''camp_2'',
      createContactId = (\<lambda>r. ''contact_'' @ toString r),
      createMessageId = (\<lambda>i. ''msg_'' @ toString i),
      buildCorrelationId = (\<lambda>cid contactId mid. cid @ '':'' @ contactId @ '':'' @ (case mid of None \<Rightarrow> [] | Some x \<Rightarrow> x)),
      formatCorrelationTag = (\<lambda>c. ''['' @ c @ '']''),
      dispatchEnv = (\<lambda>i. example_env (Some (example_client
                        (if i = 2 then Inl ''transport error'' else Inr (Some provider_ack)) (Inr ())))),
      saveStateError = (\<lambda>i. None),
      statsWriteError = (\<lambda>i. None),
      pauseRequested = (\<lambda>i. False),
      nowISO = (\<lambda>i. ''2026-01-01T09:00:00.000Z''),
      todayISO = (\<lambda>i. ''2026-01-01''),
      getHours = (\<lambda>i. 9)\<rparr>"

definition fresh_manager :: manager where
  "fresh_manager = \<lparr>stateFile = Missing, statsFile = Missing, currentState = None, isPaused = False, emitted = []\<rparr>"

definition old_state :: campaign_state where
  "old_state =
     \<lparr>campaignId = Some ''camp_1'', totalContacts = Some 2, processedRows = [2], failedRows = [],
      pendingRows = [], messageStatus = [], config = None\<rparr>"


definition start_form :: start_request where
  "start_form = \<lparr>req_file = Some (''uploads/1'', ''contacts.xlsx''), req_message = ''Oi [nome]'',
                   req_delayMin = None, req_delayMax = None\<rparr>"

definition busy_manager :: manager where
  "busy_manager = \<lparr>stateFile = Stored old_state, statsFile = Missing, currentState = None, isPaused = False, emitted = []\<rparr>"

section \<open>Properties of the message renderer\<close>

















lemma example_render:
  "applyTemplate example_renderer ''Oi [nome]'' [(''nome'', Some ''Sam'')] = ''Oi Sam''"
  by (simp add: applyTemplate_def withVariables_def normalizeVariables_def lookup_variable_def
      match_group_def normalizeKey_def example_renderer_def ascii_trim_def ascii_lower_def
      ascii_space_def bracket_key_char_def)


section \<open>Properties of the session reconciliation\<close>

lemma update_fresh: "k \<notin> fst ` set al \<Longrightarrow> AList.update k v al = al @ [(k, v)]"
  by (induction al) auto

lemma incomingMap_of_gen:
  "distinct (map fst acc @ map sid xs) \<Longrightarrow>
   foldl (\<lambda>m s. AList.update (sid s) s m) acc xs = acc @ map (\<lambda>s. (sid s, s)) xs"
proof (induction xs arbitrary: acc)
  case Nil
  show ?case by simp
next
  case (Cons x xs)
  from Cons.prems have fresh: "sid x \<notin> fst ` set acc" by auto
  from Cons.prems have "distinct (map fst (acc @ [(sid x, x)]) @ map sid xs)" by auto
  from Cons.IH [OF this] show ?case by (simp add: update_fresh [OF fresh])
qed

lemma incomingMap_of_distinct:
  "distinct (map sid incoming) \<Longrightarrow> incomingMap_of incoming = map (\<lambda>s. (sid s, s)) incoming"
  using incomingMap_of_gen [of "[]" incoming] by (simp add: incomingMap_of_def)

lemma map_of_by_id: "map_of (map (\<lambda>s. (sid s, s)) xs) k = find (\<lambda>i. sid i = k) xs"
  by (induction xs) auto

lemma forEach_previous_eq:
  "distinct (map sid previous) \<Longrightarrow>
   forEach_previous previous merged m =
     (merged @ concat (map (\<lambda>p. reconcile_map p m) previous),
      filter (\<lambda>(k, s). k \<notin> set (map sid previous)) m)"
proof (induction previous arbitrary: merged m)
  case Nil
  show ?case by simp
next
  case (Cons p rest)
  have d: "distinct (map sid rest)" and np: "sid p \<notin> set (map sid rest)"
    using Cons.prems by auto
  have same: "map (\<lambda>q. reconcile_map q (AList.delete (sid p) m)) rest = map (\<lambda>q. reconcile_map q m) rest"
  proof (rule map_cong [OF refl])
    fix q assume q: "q \<in> set rest"
    have "sid q \<in> set (map sid rest)" using q by simp
    with np have "sid q \<noteq> sid p" by auto
    then show "reconcile_map q (AList.delete (sid p) m) = reconcile_map q m"
      by (simp add: reconcile_map_def delete_conv')
  qed
  have flt: "filter (\<lambda>(k, s). k \<notin> sid ` set rest) (AList.delete (sid p) m)
        = filter (\<lambda>(k, s). k \<noteq> sid p \<and> k \<notin> sid ` set rest) m"
    by (induction m) auto
  show ?case
  proof (cases "map_of m (sid p)")
    case None
    then have absent: "filter (\<lambda>(k, s). k \<notin> sid ` set rest) m
        = filter (\<lambda>(k, s). k \<noteq> sid p \<and> k \<notin> sid ` set rest) m"
      by (intro filter_cong refl) (force simp: map_of_eq_None_iff)
    have rp: "reconcile_map p m = (if startsWith (sid p) ''temp_'' then [p] else [])"
      using None by (simp add: reconcile_map_def)
    show ?thesis
      using None by (simp add: Cons.IH [OF d] rp absent)
  next
    case (Some u)
    have rp: "reconcile_map p m = [merge_fields p u]"
      using Some by (simp add: reconcile_map_def)
    show ?thesis
      using Some by (simp add: Cons.IH [OF d] same flt rp)
  qed
qed

lemma remaining_incoming:
  "map snd (filter (\<lambda>(k, s). k \<notin> A) (map (\<lambda>s. (sid s, s)) xs)) = filter (\<lambda>i. sid i \<notin> A) xs"
  by (induction xs) auto

lemma sid_in_ids: "u \<in> set xs \<Longrightarrow> sid u \<in> set (map sid xs)"
  by simp

lemma merge_spec_ids:
  assumes "x \<in> set (merge_spec previous incoming)"
  shows "sid x \<in> set (map sid incoming) \<or> startsWith (sid x) ''temp_''"
proof -
  from assms consider
      (old) p where "p \<in> set previous" "x \<in> set (reconcile p incoming)"
    | (new) "x \<in> set incoming"
    by (auto simp: merge_spec_def)
  then show ?thesis
  proof cases
    case old
    show ?thesis
    proof (cases "find (\<lambda>i. sid i = sid p) incoming")
      case None
      with old(2) show ?thesis
        by (auto simp: reconcile_def split: if_splits)
    next
      case (Some u)
      then have "u \<in> set incoming" and "sid u = sid p"
        by (auto simp: find_Some_iff)
      then have "sid p \<in> set (map sid incoming)"
        using sid_in_ids [of u incoming] by simp
      with old(2) Some show ?thesis
        by (simp add: reconcile_def merge_fields_def \<open>sid u = sid p\<close>)
    qed
  next
    case new
    then show ?thesis using sid_in_ids [of x incoming] by simp
  qed
qed

text \<open>
  Claim C9, amended. When the ids of \<open>previous\<close> are pairwise distinct and the ids of
  \<open>incoming\<close> are pairwise distinct, \<open>mergeSessions\<close> returns exactly the reconciliation
  of the specification; in particular a previous session that is missing from
  \<open>incoming\<close> and whose id does not start with \<open>temp_\<close> has no entry in the result.
\<close>

theorem mergeSessions_distinct_ids:
  assumes "distinct (map sid previous)" and "distinct (map sid incoming)"
  shows "mergeSessions previous incoming = merge_spec previous incoming \<and>
         (\<forall>p \<in> set previous.
            sid p \<notin> set (map sid incoming) \<and> \<not> startsWith (sid p) ''temp_'' \<longrightarrow>
            sid p \<notin> set (map sid (mergeSessions previous incoming)))"
proof -
  have m: "incomingMap_of incoming = map (\<lambda>s. (sid s, s)) incoming"
    using assms(2) by (rule incomingMap_of_distinct)
  have r: "(\<lambda>p. reconcile_map p (map (\<lambda>s. (sid s, s)) incoming)) = (\<lambda>p. reconcile p incoming)"
    by (rule ext) (simp add: reconcile_map_def reconcile_def map_of_by_id)
  have eq: "mergeSessions previous incoming = merge_spec previous incoming"
    unfolding mergeSessions_def merge_spec_def
    by (simp add: forEach_previous_eq [OF assms(1)] m r remaining_incoming)
  have dropped: "sid p \<notin> set (map sid (mergeSessions previous incoming))"
    if "sid p \<notin> set (map sid incoming)" "\<not> startsWith (sid p) ''temp_''" for p :: "'a session"
  proof
    assume "sid p \<in> set (map sid (mergeSessions previous incoming))"
    then obtain x where x: "x \<in> set (merge_spec previous incoming)" "sid x = sid p"
      unfolding eq by (auto simp: image_iff)
    from merge_spec_ids [OF x(1)] that show False
      by (simp add: x(2))
  qed
  show ?thesis
    using eq dropped by blast
qed

theorem mergeSessions_distinct_ids_witness:
  "distinct (map sid [example_session ''chip_1'' ''QR'', example_session ''temp_9'' ''LOADING'',
                      example_session ''chip_2'' ''ERROR'']) \<and>
   distinct (map sid [example_session ''chip_3'' ''LOADING'', example_session ''chip_1'' ''READY'']) \<and>
   mergeSessions
     [example_session ''chip_1'' ''QR'', example_session ''temp_9'' ''LOADING'',
      example_session ''chip_2'' ''ERROR'']
     [example_session ''chip_3'' ''LOADING'', example_session ''chip_1'' ''READY'']
   = [example_session ''chip_1'' ''READY'', example_session ''temp_9'' ''LOADING'',
      example_session ''chip_3'' ''LOADING'']"
proof -
  have d1: "distinct (map sid [example_session ''chip_1'' ''QR'', example_session ''temp_9'' ''LOADING'',
                      example_session ''chip_2'' ''ERROR''])"
    by (simp add: example_session_def)
  have d2: "distinct (map sid [example_session ''chip_3'' ''LOADING'', example_session ''chip_1'' ''READY''])"
    by (simp add: example_session_def)
  show ?thesis
    using d1 d2 mergeSessions_distinct_ids [OF d1 d2]
    by (simp add: merge_spec_def reconcile_def merge_fields_def spread_def example_session_def)
qed

text \<open>
  Claim C9 fails for lists with a repeated id: the second entry of \<open>previous\<close> finds
  its id already taken out of the map and is not merged, although its id appears in
  \<open>incoming\<close>.
\<close>

theorem mergeSessions_duplicate_ids_counterexample:
  "mergeSessions [example_session ''chip_1'' ''QR'', example_session ''chip_1'' ''QR'']
                 [example_session ''chip_1'' ''READY'']
     = [example_session ''chip_1'' ''READY''] \<and>
   mergeSessions [example_session ''chip_1'' ''QR'', example_session ''chip_1'' ''QR'']
                 [example_session ''chip_1'' ''READY'']
     \<noteq> merge_spec [example_session ''chip_1'' ''QR'', example_session ''chip_1'' ''QR'']
                  [example_session ''chip_1'' ''READY'']"
  by (simp add: mergeSessions_def incomingMap_of_def merge_spec_def reconcile_def merge_fields_def
      spread_def example_session_def)

section \<open>Properties of the dispatcher\<close>

lemma dispatch_status:
  "snd (dispatch env p) = Inr res \<Longrightarrow> status res = DELIVERED \<or> status res = SENT"
  by (auto simp: dispatch_def Let_def flow_complete_def make_result_def
      split: option.splits sum.splits if_splits)

text \<open>
  Claim C3. In a real send on a selected, ready session whose send call returns a
  message identifier, the dispatcher waits for the delivery confirmation with the
  20-second timeout and returns a result: \<open>DELIVERED\<close> when the confirmation arrives,
  \<open>SENT\<close> when the wait fails; it does not raise.
\<close>

theorem dispatch_delivery_wait:
  assumes "\<not> p_dryRun p" and "getNextClient env = Some cl" and "ready_ok cl"
    and "send_outcome env p cl = Inr (Some r)" and "sr_messageId r = Some mid" and "mid \<noteq> []"
  shows "WaitForDelivery mid 20000 \<in> set (fst (dispatch env p)) \<and>
         (\<exists>res. snd (dispatch env p) = Inr res \<and>
                status res = (case waitForDelivery cl mid 20000 of
                                Inr confirmed \<Rightarrow> DELIVERED | Inl timeout \<Rightarrow> SENT))"
  using assms
  by (auto simp: dispatch_def Let_def flow_complete_def make_result_def send_outcome_def ready_ok_def
      split: option.splits sum.splits)

theorem dispatch_delivery_wait_witness:
  "\<not> p_dryRun (example_payload False) \<and>
   ready_ok (example_client (Inr (Some provider_ack)) (Inl ''ACK timeout'')) \<and>
   WaitForDelivery ''wamid.1'' 20000
     \<in> set (fst (dispatch (example_env (Some (example_client (Inr (Some provider_ack)) (Inl ''ACK timeout''))))
                    (example_payload False))) \<and>
   (\<exists>res. snd (dispatch (example_env (Some (example_client (Inr (Some provider_ack)) (Inl ''ACK timeout''))))
                    (example_payload False)) = Inr res \<and> status res = SENT)"
proof -
  let ?cl = "example_client (Inr (Some provider_ack)) (Inl ''ACK timeout'')"
  have a: "\<not> p_dryRun (example_payload False)"
    by (simp add: example_payload_def)
  have b: "getNextClient (example_env (Some ?cl)) = Some ?cl"
    by (simp add: example_env_def)
  have c: "ready_ok ?cl"
    by (simp add: ready_ok_def example_client_def)
  have d: "send_outcome (example_env (Some ?cl)) (example_payload False) ?cl = Inr (Some provider_ack)"
    by (simp add: send_outcome_def example_client_def)
  have e: "sr_messageId provider_ack = Some ''wamid.1''" and f: "''wamid.1'' \<noteq> []"
    by (simp_all add: provider_ack_def)
  have g: "waitForDelivery ?cl ''wamid.1'' 20000 = Inl ''ACK timeout''"
    by (simp add: example_client_def)
  show ?thesis
    using a c dispatch_delivery_wait [OF a b c d e f] by (simp add: g)
qed




text \<open>
  Claim C6 fails on the code. On a session that exposes \<open>enterCooldown\<close>, a real send
  whose delivery confirmation times out returns \<open>SENT\<close> from inside the \<open>catch\<close> block:
  the trace ends with the wait for the confirmation and holds no \<open>EnterCooldown\<close>,
  while the result still carries the post-send delay.
\<close>

theorem dispatch_ack_timeout_skips_cooldown:
  "enterCooldown (example_client (Inr (Some provider_ack)) (Inl ''ACK timeout'')) \<and>
   dispatch (example_env (Some (example_client (Inr (Some provider_ack)) (Inl ''ACK timeout''))))
     (example_payload False)
     = ([WaitUntilReady 30000, Sleep 300, SendMessage ''5511999990000'' ''Oi Sam'',
         WaitForDelivery ''wamid.1'' 20000],
        Inr \<lparr>status = SENT, chip = ''chip_1'', message = ''Oi Sam'',
             clientMessageId = Some ''msg_1'', messageId = Some ''wamid.1'',
             jid = Some ''5511999990000@s.whatsapp.net'',
             delays = \<lparr>typing = 300, wait = 5000\<rparr>\<rparr>)"
  by (simp add: dispatch_def Let_def make_result_def example_env_def example_client_def
      example_payload_def provider_ack_def example_render)

text \<open>The sibling path: a real send reported as \<open>DELIVERED\<close> does enter the cooldown.\<close>

lemma dispatch_cooldown_after_delivery:
  assumes "\<not> p_dryRun p" and "getNextClient env = Some cl" and "enterCooldown cl"
    and "snd (dispatch env p) = Inr res" and "status res = DELIVERED"
  shows "EnterCooldown (getVariableDelay env (p_delayConfig p)) ''post_send_delay'' \<in> set (fst (dispatch env p))"
  using assms
  by (auto simp: dispatch_def Let_def flow_complete_def make_result_def
      split: option.splits sum.splits if_splits)


section \<open>Properties of the daily statistics\<close>













section \<open>Properties of the campaign orchestrator\<close>

lemma cur_simps [simp]:
  "cur (update_state f m) = f (cur m)"
  "cur (saveState m) = cur m"
  "cur (emitEvent e m) = cur m"
  "cur (m\<lparr>statsFile := sf\<rparr>) = cur m"
  "cur (m\<lparr>isPaused := b\<rparr>) = cur m"
  "cur (m\<lparr>stateFile := file\<rparr>) = cur m"
  "cur (m\<lparr>currentState := Some s\<rparr>) = s"
  by (simp_all add: cur_def update_state_def saveState_def emitEvent_def)

lemma stateFile_simps [simp]:
  "stateFile (update_state f m) = stateFile m"
  "stateFile (saveState m) = Stored (cur m)"
  "stateFile (emitEvent e m) = stateFile m"
  by (simp_all add: update_state_def saveState_def emitEvent_def)

lemma isPaused_simps [simp]:
  "isPaused (update_state f m) = isPaused m"
  "isPaused (saveState m) = isPaused m"
  "isPaused (emitEvent e m) = isPaused m"
  by (simp_all add: update_state_def saveState_def emitEvent_def)

lemma emitted_simps [simp]:
  "emitted (update_state f m) = emitted m"
  "emitted (saveState m) = emitted m"
  "emitted (emitEvent e m) = emitted m @ [e]"
  by (simp_all add: update_state_def saveState_def emitEvent_def)

lemma attempt_status:
  "attempt w cid t dc i c = Inr res \<Longrightarrow> status res = DELIVERED \<or> status res = SENT"
  unfolding attempt_def by (rule dispatch_status)

lemma catch_block_rows [simp]:
  "processedRows (cur (catch_block w cid i c err m)) = processedRows (cur m) @ [row c]"
  "failedRows (cur (catch_block w cid i c err m)) = failedRows (cur m) @ [(row c, err)]"
  "isPaused (catch_block w cid i c err m) = isPaused m"
  by (simp_all add: catch_block_def Let_def)

lemma catch_block_sendings [simp]:
  "sendings (emitted (catch_block w cid i c err m)) = sendings (emitted m)"
  by (simp add: catch_block_def Let_def sendings_def)

lemma process_contact_raised:
  assumes "attempt w cid t dc i c = Inl err"
  shows "process_contact w cid t dc n i c m =
     catch_block w cid i c err
       (emitEvent (MessageStatus cid (createContactId w (row c)) (createMessageId w i)
                     (buildCorrelationId w cid (createContactId w (row c)) (Some (createMessageId w i)))
                     SENDING (phone c) None) m)"
  using assms unfolding process_contact_def by (simp add: Let_def)

text \<open>
  The rows one iteration records: the row is appended to \<open>processedRows\<close> once, or twice
  when the write of the state after a successful send throws; \<open>failedRows\<close> receives
  the row with the error of the dispatch or of that write.
\<close>

lemma process_contact_recorded:
  "processedRows (cur (process_contact w cid t dc n i c m)) =
     processedRows (cur m) @
       (case attempt w cid t dc i c of
          Inl err \<Rightarrow> [row c]
        | Inr res \<Rightarrow> (case saveStateError w i of Some err \<Rightarrow> [row c, row c] | None \<Rightarrow> [row c]))"
  "failedRows (cur (process_contact w cid t dc n i c m)) =
     failedRows (cur m) @
       (case attempt w cid t dc i c of
          Inl err \<Rightarrow> [(row c, err)]
        | Inr res \<Rightarrow> (case saveStateError w i of Some err \<Rightarrow> [(row c, err)] | None \<Rightarrow> []))"
  "isPaused (process_contact w cid t dc n i c m) = isPaused m"
proof -
  show "processedRows (cur (process_contact w cid t dc n i c m)) =
     processedRows (cur m) @
       (case attempt w cid t dc i c of
          Inl err \<Rightarrow> [row c]
        | Inr res \<Rightarrow> (case saveStateError w i of Some err \<Rightarrow> [row c, row c] | None \<Rightarrow> [row c]))"
  proof (cases "attempt w cid t dc i c")
    case (Inl err)
    then show ?thesis by (simp add: process_contact_raised)
  next
    case (Inr res)
    from attempt_status [OF this] Inr show ?thesis
      unfolding process_contact_def by (auto simp: Let_def split: option.splits)
  qed
  show "failedRows (cur (process_contact w cid t dc n i c m)) =
     failedRows (cur m) @
       (case attempt w cid t dc i c of
          Inl err \<Rightarrow> [(row c, err)]
        | Inr res \<Rightarrow> (case saveStateError w i of Some err \<Rightarrow> [(row c, err)] | None \<Rightarrow> []))"
  proof (cases "attempt w cid t dc i c")
    case (Inl err)
    then show ?thesis by (simp add: process_contact_raised)
  next
    case (Inr res)
    from attempt_status [OF this] Inr show ?thesis
      unfolding process_contact_def by (auto simp: Let_def split: option.splits)
  qed
  show "isPaused (process_contact w cid t dc n i c m) = isPaused m"
  proof (cases "attempt w cid t dc i c")
    case (Inl err)
    then show ?thesis by (simp add: process_contact_raised)
  next
    case (Inr res)
    from attempt_status [OF this] Inr show ?thesis
      unfolding process_contact_def by (auto simp: Let_def split: option.splits)
  qed
qed

text \<open>
  When the write of the state after a successful send throws, the delivered row is
  recorded as failed with the error of the write.
\<close>

lemma process_contact_write_failure:
  assumes "attempt w cid t dc i c = Inr res" and "saveStateError w i = Some err"
  shows "processedRows (cur (process_contact w cid t dc n i c m))
           = processedRows (cur m) @ [row c, row c]"
    and "failedRows (cur (process_contact w cid t dc n i c m)) = failedRows (cur m) @ [(row c, err)]"
  using assms by (simp_all add: process_contact_recorded)







lemma failures_rows: "fst ` set (failures w cid t dc i cs) \<subseteq> row ` set cs"
  by (induction cs arbitrary: i) (auto split: sum.splits)



lemma unprocessed_total [simp]:
  "unprocessed (s\<lparr>totalContacts := n\<rparr>) cs = unprocessed s cs"
  by (simp add: unprocessed_def)




lemma example_attempt_fails:
  "attempt example_world cid t dc (Suc (Suc 0)) c = Inl ''transport error''"
  by (simp add: attempt_def dispatch_def payload_for_def example_world_def example_env_def
      example_client_def Let_def)









lemma sendings_append [simp]: "sendings (es @ es') = sendings es @ sendings es'"
  by (simp add: sendings_def)

lemma process_contact_sendings:
  "sendings (emitted (process_contact w cid t dc n i c m)) = sendings (emitted m) @ [createContactId w (row c)]"
proof (cases "attempt w cid t dc i c")
  case (Inl err)
  then show ?thesis by (simp add: process_contact_raised) (simp add: sendings_def)
next
  case (Inr res)
  have e: "emitted (m\<lparr>statsFile := sf\<rparr>) = emitted m" for m :: manager and sf
    by simp
  from attempt_status [OF Inr] Inr show ?thesis
    unfolding process_contact_def
    by (auto simp: Let_def e split: option.splits) (simp_all add: sendings_def)
qed

lemma process_loop_sendings:
  assumes "\<And>j. \<not> pauseRequested w j" and "\<not> isPaused m"
  shows "sendings (emitted (process_loop w cid t dc n i cs m))
           = sendings (emitted m) @ map (\<lambda>c. createContactId w (row c)) cs"
  using assms(2)
proof (induction cs arbitrary: i m)
  case Nil
  then show ?case by simp
next
  case (Cons c cs)
  let ?m = "saveState (process_contact w cid t dc n i c m)"
  have np: "\<not> isPaused ?m"
    using Cons.prems by (simp add: process_contact_recorded)
  show ?case
    using Cons.IH [OF np, of "Suc i"] Cons.prems assms(1)
    by (simp add: process_contact_sendings)
qed

text \<open>
  Claim C2. When the dispatch for a contact raises, the iteration appends the row and
  the error to \<open>failedRows\<close>, appends the row to \<open>processedRows\<close>, and, the client
  message id being non-empty, records a \<open>FAILED\<close> entry under it and emits the failure
  event after the \<open>SENDING\<close> one. The row is then outside every later unprocessed
  subset, and a run that is not paused dispatches each contact of its list once.
\<close>

theorem process_contact_failure:
  fixes w cid t dc n i c m
  defines "m' \<equiv> process_contact w cid t dc n i c m"
  assumes "attempt w cid t dc i c = Inl err"
  shows "failedRows (cur m') = failedRows (cur m) @ [(row c, err)] \<and>
         processedRows (cur m') = processedRows (cur m) @ [row c] \<and>
         c \<notin> set (unprocessed (cur m') allContacts) \<and>
         (createMessageId w i \<noteq> [] \<longrightarrow>
            map_of (messageStatus (cur m')) (createMessageId w i)
              = Some \<lparr>ms_campaignId = cid, ms_contactId = createContactId w (row c),
                      ms_phone = phone c, ms_status = FAILED, ms_error = Some err,
                      ms_updatedAt = nowISO w i\<rparr> \<and>
            emitted m' = emitted m @
               [MessageStatus cid (createContactId w (row c)) (createMessageId w i)
                  (buildCorrelationId w cid (createContactId w (row c)) (Some (createMessageId w i)))
                  SENDING (phone c) None,
                MessageStatus cid (createContactId w (row c)) (createMessageId w i)
                  (formatCorrelationTag w
                     (buildCorrelationId w cid (createContactId w (row c)) (Some (createMessageId w i))))
                  FAILED (phone c) (Some err)]) \<and>
         (\<not> isPaused m \<and> (\<forall>j. \<not> pauseRequested w j) \<longrightarrow>
            sendings (emitted (process_loop w cid t dc n i (c # rest) m))
              = sendings (emitted m) @ map (\<lambda>c. createContactId w (row c)) (c # rest))"
proof -
  have step: "failedRows (cur m') = failedRows (cur m) @ [(row c, err)] \<and>
         processedRows (cur m') = processedRows (cur m) @ [row c] \<and>
         c \<notin> set (unprocessed (cur m') allContacts) \<and>
         (createMessageId w i \<noteq> [] \<longrightarrow>
            map_of (messageStatus (cur m')) (createMessageId w i)
              = Some \<lparr>ms_campaignId = cid, ms_contactId = createContactId w (row c),
                      ms_phone = phone c, ms_status = FAILED, ms_error = Some err,
                      ms_updatedAt = nowISO w i\<rparr> \<and>
            emitted m' = emitted m @
               [MessageStatus cid (createContactId w (row c)) (createMessageId w i)
                  (buildCorrelationId w cid (createContactId w (row c)) (Some (createMessageId w i)))
                  SENDING (phone c) None,
                MessageStatus cid (createContactId w (row c)) (createMessageId w i)
                  (formatCorrelationTag w
                     (buildCorrelationId w cid (createContactId w (row c)) (Some (createMessageId w i))))
                  FAILED (phone c) (Some err)])"
    unfolding m'_def process_contact_raised [OF assms(2)]
    by (simp add: catch_block_def Let_def unprocessed_def update_conv')
  have once: "sendings (emitted (process_loop w cid t dc n i (c # rest) m))
              = sendings (emitted m) @ map (\<lambda>c. createContactId w (row c)) (c # rest)"
    if "\<not> isPaused m" "\<forall>j. \<not> pauseRequested w j"
    using that process_loop_sendings [of w m cid t dc n i "c # rest"] by blast
  show ?thesis
    using step once by blast
qed

theorem process_contact_failure_witness:
  "attempt example_world ''camp_2'' ''Oi [nome]'' no_delay (Suc (Suc 0)) contact_caio = Inl ''transport error'' \<and>
   createMessageId example_world (Suc (Suc 0)) = ''msg_2'' \<and>
   \<not> isPaused fresh_manager \<and> (\<forall>j. \<not> pauseRequested example_world j) \<and>
   failedRows (cur (process_contact example_world ''camp_2'' ''Oi [nome]'' no_delay 3 (Suc (Suc 0))
                      contact_caio fresh_manager)) = [(4, ''transport error'')] \<and>
   processedRows (cur (process_contact example_world ''camp_2'' ''Oi [nome]'' no_delay 3 (Suc (Suc 0))
                      contact_caio fresh_manager)) = [4] \<and>
   map_of (messageStatus (cur (process_contact example_world ''camp_2'' ''Oi [nome]'' no_delay 3
                                 (Suc (Suc 0)) contact_caio fresh_manager))) ''msg_2''
     = Some \<lparr>ms_campaignId = ''camp_2'', ms_contactId = ''contact_4'', ms_phone = ''5511999990003'',
             ms_status = FAILED, ms_error = Some ''transport error'',
             ms_updatedAt = ''2026-01-01T09:00:00.000Z''\<rparr> \<and>
   sendings (emitted (process_loop example_world ''camp_2'' ''Oi [nome]'' no_delay 3 (Suc (Suc 0))
                        [contact_caio] fresh_manager)) = [''contact_4'']"
proof -
  have a: "attempt example_world ''camp_2'' ''Oi [nome]'' no_delay (Suc (Suc 0)) contact_caio
             = Inl ''transport error''"
    by (rule example_attempt_fails)
  have ids: "createMessageId example_world (Suc (Suc 0)) = ''msg_2''"
    "createContactId example_world 4 = ''contact_4''"
    by (simp_all add: example_world_def digit_char_def)
  have w: "nowISO example_world (Suc (Suc 0)) = ''2026-01-01T09:00:00.000Z''"
    "\<forall>j. \<not> pauseRequested example_world j"
    by (simp_all add: example_world_def)
  have m: "cur fresh_manager = default_state" "emitted fresh_manager = []" "\<not> isPaused fresh_manager"
    by (simp_all add: cur_def fresh_manager_def)
  have c: "row contact_caio = 4" "phone contact_caio = ''5511999990003''"
    by (simp_all add: contact_caio_def)
  show ?thesis
    using process_contact_failure [OF a, of 3 fresh_manager "[]" "[]"] a
    by (simp add: ids w m c default_state_def sendings_def)
qed






section \<open>Properties of the start route\<close>

text \<open>
  Claim C4. While \<open>hasActiveCampaign\<close> holds, a start request is answered with an error
  and the manager, with its persisted and in-memory campaign state, is unchanged.
\<close>

theorem start_rejected_while_active:
  assumes "hasActiveCampaign m"
  shows "snd (post_campaign_start w req m) = m \<and>
         fst (post_campaign_start w req m)
           = (if req_file req = None then Failure NoFileUploaded else Failure CampaignInProgress)"
  using assms by (simp add: post_campaign_start_def split: option.splits prod.splits)

theorem start_rejected_while_active_witness:
  "hasActiveCampaign busy_manager \<and>
   post_campaign_start example_world start_form busy_manager = (Failure CampaignInProgress, busy_manager) \<and>
   stateFile busy_manager = Stored old_state"
proof -
  have a: "hasActiveCampaign busy_manager"
    by (simp add: hasActiveCampaign_def busy_manager_def old_state_def loadState_def or_zero_def)
  have f: "req_file start_form \<noteq> None"
    by (simp add: start_form_def)
  have s: "stateFile busy_manager = Stored old_state"
    by (simp add: busy_manager_def)
  show ?thesis
    using a s start_rejected_while_active [OF a, of example_world start_form] f
    by (simp add: prod_eq_iff)
qed

end
